theory Spec2Isabelle
  imports Complex_Main
begin

section \<open>The pan/zoom/pin viewer \<open>ZoomDesktop\<close>\<close>

text \<open>
  The component keeps its data in five mutable refs and four pieces of React state.
  The record below has one field per field of the source: the refs
  \<open>imageDataRef\<close> (\<open>image_width\<close>, \<open>image_height\<close>), \<open>containerDataRef\<close>
  (\<open>container_width\<close>, \<open>container_height\<close>, \<open>imageRef\<close>), \<open>offsetDataRef\<close>
  (\<open>baseX\<close>, \<open>baseY\<close>, \<open>dragX\<close>, \<open>dragY\<close>), \<open>zoomDataRef\<close> (\<open>zoom_min\<close>,
  \<open>zoom_max\<close>, \<open>zoom_current\<close>), \<open>dragDataRef\<close> (\<open>isDragging\<close>), and the states
  \<open>shouldDisplayModal\<close>, \<open>dragOffset\<close>, \<open>zoomLevel\<close> and \<open>pin\<close>. An object
  \<open>{x, y}\<close> is a pair.

  A JavaScript \<open>number\<close> is modelled as a \<open>real\<close>: arithmetic is exact, there is
  no rounding, and there are no infinities and no NaN. The source divides in four
  places (the fit ratios, the halves, the pin coordinates and the marker's inverse
  scale); a division by zero yields \<open>0\<close> in HOL where JavaScript yields an infinity
  or NaN, so the divisors evaluated by each handler are listed separately in
  \<open>divisors\<close> below, and a statement whose truth depends on the value of a
  quotient assumes that its divisor is not zero. In particular \<open>onLoadContainer\<close>
  computes the zoom the source computes only when both image sizes are not zero, and
  every statement about the zoom it yields assumes strictly positive image sizes.

  A DOM element handle (\<open>HTMLDivElement | null\<close>) is an \<open>element option\<close>; what
  the code reads from a live element (\<open>clientWidth\<close>, \<open>clientHeight\<close>,
  \<open>getBoundingClientRect()\<close>) is an argument of the handler that reads it.
\<close>

type_synonym element = nat

record state =
  shouldDisplayModal :: bool
  image_width :: real
  image_height :: real
  container_width :: real
  container_height :: real
  imageRef :: "element option"
  baseX :: real
  baseY :: real
  dragX :: real
  dragY :: real
  zoom_min :: real
  zoom_max :: real
  zoom_current :: real
  isDragging :: bool
  dragOffset :: "real \<times> real"
  zoomLevel :: real
  pin :: "real \<times> real"

text \<open>The values given to \<open>useRef\<close> and \<open>useState\<close> when the component mounts.\<close>

definition initial :: state where
  "initial =
     \<lparr>shouldDisplayModal = False,
      image_width = 1, image_height = 1,
      container_width = 1, container_height = 1, imageRef = None,
      baseX = 0, baseY = 0, dragX = 0, dragY = 0,
      zoom_min = 1, zoom_max = 3, zoom_current = 1,
      isDragging = False,
      dragOffset = (0, 0),
      zoomLevel = 1,
      pin = (0, 0)\<rparr>"

text \<open>\<open>clamp(x, min, max) = Math.max(min, Math.min(x, max))\<close>.\<close>

definition clamp :: "real \<Rightarrow> real \<Rightarrow> real \<Rightarrow> real" where
  "clamp x lo hi = max lo (min x hi)"

text \<open>\<open>onToggleModal\<close>: \<open>setDisplayModal((v) => !v)\<close>.\<close>

definition onToggleModal :: "state \<Rightarrow> state" where
  "onToggleModal s = s\<lparr>shouldDisplayModal := \<not> shouldDisplayModal s\<rparr>"

text \<open>The \<open>onload\<close> handler of the image created in the first effect.\<close>

definition imageOnload :: "real \<Rightarrow> real \<Rightarrow> state \<Rightarrow> state" where
  "imageOnload w h s = s\<lparr>image_width := w, image_height := h\<rparr>"

text \<open>
  \<open>onLoadContainer(r)\<close>, the ref callback of the large container. The argument is
  \<open>None\<close> for \<open>null\<close> and \<open>Some (r.clientWidth, r.clientHeight)\<close> for an element.
\<close>

definition onLoadContainer :: "(real \<times> real) option \<Rightarrow> state \<Rightarrow> state" where
  "onLoadContainer r s =
     (case r of
        None \<Rightarrow> s
      | Some (cw, ch) \<Rightarrow>
          let zl = (if image_width s > cw \<or> image_height s > ch
                    then min (cw / image_width s) (ch / image_height s)
                    else 1)
          in s\<lparr>container_width := cw,
                container_height := ch,
                zoom_min := zl,
                zoom_max := 3,
                zoom_current := zl,
                zoomLevel := zl,
                baseX := (image_width s - cw) / 2,
                baseY := (image_height s - ch) / 2,
                dragX := 0,
                dragY := 0,
                dragOffset := (0, 0)\<rparr>)"

text \<open>
  \<open>zoomIn\<close> and \<open>zoomOut\<close>: the updater given to \<open>setZoomLevel\<close> receives the state
  \<open>zoomLevel\<close> as \<open>z\<close>, writes the ref \<open>zoomDataRef.current.current\<close> and returns the
  new state; in \<open>zoomOut\<close> the nested updater of \<open>setDragOffset\<close> receives the state
  \<open>dragOffset\<close> as \<open>prev\<close>. An updater is taken to run as part of the handler that
  queues it, before the next event is handled.
\<close>

definition zoomIn :: "state \<Rightarrow> state" where
  "zoomIn s =
     (let nz = clamp (zoomLevel s + 1 / 10) (zoom_min s) (zoom_max s)
      in s\<lparr>zoom_current := nz, zoomLevel := nz\<rparr>)"

definition zoomOut :: "state \<Rightarrow> state" where
  "zoomOut s =
     (let nz = clamp (zoomLevel s - 1 / 10) (zoom_min s) (zoom_max s);
          oversizeX = max (image_width s * nz - container_width s) 0;
          oversizeY = max (image_height s * nz - container_height s) 0;
          x = clamp (fst (dragOffset s)) (- oversizeX / 2) (oversizeX / 2);
          y = clamp (snd (dragOffset s)) (- oversizeY / 2) (oversizeY / 2)
      in s\<lparr>zoom_current := nz,
            dragX := x,
            dragY := y,
            dragOffset := (x, y),
            zoomLevel := nz\<rparr>)"

text \<open>The drag handlers; \<open>onDragMove\<close> receives \<open>(e.movementX, e.movementY)\<close>.\<close>

definition onDragStart :: "state \<Rightarrow> state" where
  "onDragStart s = s\<lparr>isDragging := True\<rparr>"

definition onDragMove :: "real \<times> real \<Rightarrow> state \<Rightarrow> state" where
  "onDragMove e s =
     (if isDragging s then
        let oversizeX = max (image_width s * zoom_current s - container_width s) 0;
            oversizeY = max (image_height s * zoom_current s - container_height s) 0;
            x = clamp (fst (dragOffset s) - fst e) (- oversizeX / 2) (oversizeX / 2);
            y = clamp (snd (dragOffset s) - snd e) (- oversizeY / 2) (oversizeY / 2)
        in s\<lparr>dragX := x, dragY := y, dragOffset := (x, y)\<rparr>
      else s)"

definition onDragEnd :: "state \<Rightarrow> state" where
  "onDragEnd s = s\<lparr>isDragging := False\<rparr>"

text \<open>
  \<open>onPinPlace(e)\<close>: \<open>rect\<close> is \<open>getBoundingClientRect\<close>, giving \<open>(box.x, box.y)\<close> of
  an element at the time of the event, and \<open>e\<close> is \<open>(e.clientX, e.clientY)\<close>.
\<close>

definition onPinPlace :: "(element \<Rightarrow> real \<times> real) \<Rightarrow> real \<times> real \<Rightarrow> state \<Rightarrow> state" where
  "onPinPlace rect e s =
     (case imageRef s of
        None \<Rightarrow> s
      | Some r \<Rightarrow>
          let box = rect r
          in s\<lparr>pin := ((fst e - fst box) / zoom_current s,
                        (snd e - snd box) / zoom_current s)\<rparr>)"

text \<open>
  \<open>onLoadImage(r)\<close>, the ref callback of the image element (the listeners it
  registers are the four handlers above).
\<close>

definition onLoadImage :: "element option \<Rightarrow> state \<Rightarrow> state" where
  "onLoadImage r s = (case r of None \<Rightarrow> s | Some e \<Rightarrow> s\<lparr>imageRef := Some e\<rparr>)"

text \<open>
  The rendered tree. With the modal closed only the small image is shown. With it
  open, the image element carries the transform
  \<open>translateX(-baseX - dragOffset.x) translateY(-baseY - dragOffset.y) scale(zoomLevel)\<close>
  and has the pin marker as its child: \<open>left = pin.x\<close>, \<open>top = pin.y\<close>,
  \<open>transform = scale(1 / zoomLevel)\<close>. The marker is written without a condition.
  The label of the controls (the zoom level printed with two decimals) and the
  static text are not modelled.
\<close>

datatype view =
    SmallImage
  | LargeImage "real \<times> real \<times> real" "(real \<times> real \<times> real) list"

definition render :: "state \<Rightarrow> view" where
  "render s =
     (if shouldDisplayModal s then
        LargeImage
          (- baseX s - fst (dragOffset s), - baseY s - snd (dragOffset s), zoomLevel s)
          [(fst (pin s), snd (pin s), 1 / zoomLevel s)]
      else SmallImage)"

fun markers :: "view \<Rightarrow> (real \<times> real \<times> real) list" where
  "markers SmallImage = []"
| "markers (LargeImage tr ms) = ms"

fun transform :: "view \<Rightarrow> (real \<times> real \<times> real) option" where
  "transform SmallImage = None"
| "transform (LargeImage tr ms) = Some tr"

subsection \<open>Events\<close>

text \<open>
  Everything that can call into the component: the image's \<open>onload\<close>, a click on a
  toggle, the two ref callbacks (which React calls with the element when it mounts
  and with \<open>null\<close> when it unmounts), the two zoom buttons, and the four listeners
  of the image element. All handlers run to completion one after the other.
\<close>

datatype event =
    ImageLoaded real real
  | ToggleModal
  | ContainerRef "(real \<times> real) option"
  | ImageElementRef "element option"
  | ZoomIn
  | ZoomOut
  | PointerDown
  | PointerMove "real \<times> real"
  | PointerUp
  | DoubleClick "element \<Rightarrow> real \<times> real" "real \<times> real"

fun step :: "state \<Rightarrow> event \<Rightarrow> state" where
  "step s (ImageLoaded w h) = imageOnload w h s"
| "step s ToggleModal = onToggleModal s"
| "step s (ContainerRef r) = onLoadContainer r s"
| "step s (ImageElementRef r) = onLoadImage r s"
| "step s ZoomIn = zoomIn s"
| "step s ZoomOut = zoomOut s"
| "step s PointerDown = onDragStart s"
| "step s (PointerMove e) = onDragMove e s"
| "step s PointerUp = onDragEnd s"
| "step s (DoubleClick rect e) = onPinPlace rect e s"

definition run :: "state \<Rightarrow> event list \<Rightarrow> state" where
  "run s es = foldl step s es"

text \<open>The six operations of the input source and the zoom controls.\<close>

fun user_event :: "event \<Rightarrow> bool" where
  "user_event ZoomIn = True"
| "user_event ZoomOut = True"
| "user_event PointerDown = True"
| "user_event (PointerMove e) = True"
| "user_event PointerUp = True"
| "user_event (DoubleClick rect e) = True"
| "user_event _ = False"

fun is_placement :: "event \<Rightarrow> bool" where
  "is_placement (DoubleClick rect e) = True"
| "is_placement _ = False"

text \<open>The sizes an event records are strictly positive.\<close>

fun positive_sizes :: "event \<Rightarrow> bool" where
  "positive_sizes (ImageLoaded w h) = (0 < w \<and> 0 < h)"
| "positive_sizes (ContainerRef (Some (cw, ch))) = (0 < cw \<and> 0 < ch)"
| "positive_sizes _ = True"

text \<open>
  The events that leave the recorded metrics as they are when the container has the
  size \<open>c\<close>: every event but an image load and a container load of another size.
\<close>

fun keeps_metrics :: "real \<times> real \<Rightarrow> event \<Rightarrow> bool" where
  "keeps_metrics c (ImageLoaded w h) = False"
| "keeps_metrics c (ContainerRef (Some c')) = (c' = c)"
| "keeps_metrics c _ = True"

text \<open>
  Closing the viewer is a click on the toggle, after which React unmounts the large
  container and calls both ref callbacks with \<open>null\<close>; opening it is a click on the
  toggle, after which React mounts a new container of size \<open>c\<close> and a new image
  element \<open>i\<close> and calls both ref callbacks with them.
\<close>

definition closeViewer :: "event list" where
  "closeViewer = [ToggleModal, ImageElementRef None, ContainerRef None]"

definition openViewer :: "real \<times> real \<Rightarrow> element \<Rightarrow> event list" where
  "openViewer c i = [ToggleModal, ImageElementRef (Some i), ContainerRef (Some c)]"

definition reopen :: "real \<times> real \<Rightarrow> element \<Rightarrow> state \<Rightarrow> state" where
  "reopen c i s = run s (closeViewer @ openViewer c i)"

subsection \<open>Divisors\<close>

text \<open>
  The divisors a handler evaluates when it runs in state \<open>s\<close>, in the order of the
  source: the two fit ratios (only in the branch that computes them) and the two
  halves of \<open>onLoadContainer\<close>; the four halves of \<open>zoomOut\<close> and of a move while
  dragging; the two divisions by \<open>zoomDataRef.current.current\<close> of \<open>onPinPlace\<close>.
  \<open>render_divisors\<close> is the divisor of the marker's \<open>1 / zoomLevel\<close>.
\<close>

fun divisors :: "event \<Rightarrow> state \<Rightarrow> real list" where
  "divisors (ContainerRef (Some (cw, ch))) s =
     (if image_width s > cw \<or> image_height s > ch
      then [image_width s, image_height s] else []) @ [2, 2]"
| "divisors ZoomOut s = [2, 2, 2, 2]"
| "divisors (PointerMove e) s = (if isDragging s then [2, 2, 2, 2] else [])"
| "divisors (DoubleClick rect e) s =
     (case imageRef s of None \<Rightarrow> [] | Some r \<Rightarrow> [zoom_current s, zoom_current s])"
| "divisors _ s = []"

definition render_divisors :: "state \<Rightarrow> real list" where
  "render_divisors s = (if shouldDisplayModal s then [zoomLevel s] else [])"

subsection \<open>The operations as the specification names them\<close>

text \<open>
  The specification names functions that the source writes inline. These follow the
  specification's words, to be compared with the handlers above:
  \<open>oversize(imageDim, containerDim, zoom) = max(imageDim \<cdot> zoom - containerDim, 0)\<close>;
  \<open>clampOffset\<close> clamps each axis to \<open>[-oversize/2, +oversize/2]\<close>;
  \<open>step(current, delta) = clamp(current + delta, range.min, range.max)\<close>;
  \<open>screenToImageLocal(p, origin, zoom) = (p - origin) / zoom\<close> on each axis.
\<close>

definition spec_oversize :: "real \<Rightarrow> real \<Rightarrow> real \<Rightarrow> real" where
  "spec_oversize imageDim containerDim zoom = max (imageDim * zoom - containerDim) 0"

definition spec_clampOffset ::
  "real \<times> real \<Rightarrow> real \<times> real \<Rightarrow> real \<times> real \<Rightarrow> real \<Rightarrow> real \<times> real" where
  "spec_clampOffset offset img cont zoom =
     (clamp (fst offset)
        (- spec_oversize (fst img) (fst cont) zoom / 2)
        (spec_oversize (fst img) (fst cont) zoom / 2),
      clamp (snd offset)
        (- spec_oversize (snd img) (snd cont) zoom / 2)
        (spec_oversize (snd img) (snd cont) zoom / 2))"

definition spec_step :: "real \<times> real \<Rightarrow> real \<Rightarrow> real \<Rightarrow> real" where
  "spec_step rng current delta = clamp (current + delta) (fst rng) (snd rng)"

definition spec_screenToImageLocal :: "real \<times> real \<Rightarrow> real \<times> real \<Rightarrow> real \<Rightarrow> real \<times> real" where
  "spec_screenToImageLocal p origin zoom =
     ((fst p - fst origin) / zoom, (snd p - snd origin) / zoom)"

subsection \<open>The render surface\<close>

text \<open>
  How a browser draws the image element is not part of the component. For the round
  trip of a pin it is taken as CSS defines it: an element laid out with its top left
  corner at \<open>layout\<close> and of size \<open>sz\<close>, under the transform
  \<open>translateX(tx) translateY(ty) scale(z)\<close> with the default transform origin (the
  centre \<open>c\<close> of the element), shows its local point \<open>p\<close> at
  \<open>layout + c + (tx, ty) + z \<cdot> (p - c)\<close>. The rectangle that
  \<open>getBoundingClientRect\<close> reports is the bounding box of the four transformed
  corners, so its origin is the smaller coordinate of two opposite corners on each
  axis.
\<close>

definition css_point ::
  "real \<times> real \<Rightarrow> real \<times> real \<Rightarrow> real \<times> real \<times> real \<Rightarrow> real \<times> real \<Rightarrow> real \<times> real" where
  "css_point layout sz tr p =
     (case tr of (tx, ty, z) \<Rightarrow>
        (fst layout + fst sz / 2 + tx + z * (fst p - fst sz / 2),
         snd layout + snd sz / 2 + ty + z * (snd p - snd sz / 2)))"

definition css_box_origin ::
  "real \<times> real \<Rightarrow> real \<times> real \<Rightarrow> real \<times> real \<times> real \<Rightarrow> real \<times> real" where
  "css_box_origin layout sz tr =
     (min (fst (css_point layout sz tr (0, 0))) (fst (css_point layout sz tr sz)),
      min (snd (css_point layout sz tr (0, 0))) (snd (css_point layout sz tr sz)))"

subsection \<open>Example sessions\<close>

text \<open>
  A bounding rectangle that has its origin at \<open>b\<close> whatever the element, and four
  sessions used as concrete inputs: an image of \<open>2000 \<times> 1000\<close> opened in a container
  of \<open>500 \<times> 500\<close>; the same session after a pin was placed, one zoom step in, and a
  drag that is still going on; an image of \<open>2 \<times> 2\<close> opened in a container that
  reports the size \<open>0 \<times> 0\<close>; and a viewer opened in a container of \<open>500 \<times> 500\<close>
  before its image of \<open>2000 \<times> 1000\<close> has loaded, the load arriving afterwards.
\<close>

definition rect_at :: "real \<times> real \<Rightarrow> element \<Rightarrow> real \<times> real" where
  "rect_at b r = b"

definition example_open :: state where
  "example_open = run initial (ImageLoaded 2000 1000 # openViewer (500, 500) 7)"

definition example_pinned :: state where
  "example_pinned =
     run example_open
       [DoubleClick (rect_at (100, 100)) (110, 120), ZoomIn, PointerDown,
        PointerMove (- 1000, 50)]"

definition example_collapsed :: state where
  "example_collapsed = run initial (ImageLoaded 2 2 # openViewer (0, 0) 7)"

definition example_late :: state where
  "example_late = run initial (openViewer (500, 500) 7 @ [ImageLoaded 2000 1000])"

subsection \<open>Invariants\<close>

text \<open>
  \<open>pan_inv\<close>: the ref and the state copy of the zoom level and of the pan offset
  agree, the zoom level is a fixed point of the clamp to the zoom range, the image
  size is not negative, and the pan offset is within half the oversize on each axis.
  \<open>pos_inv\<close>: the image size and the minimum zoom are strictly positive and the zoom
  level is at least the minimum.
  \<open>metrics_inv\<close>: the image has the size \<open>iw \<times> ih\<close>, the container the size
  \<open>cw \<times> ch\<close>, and the zoom range is the one \<open>onLoadContainer\<close> records for them.
\<close>

definition pan_inv :: "state \<Rightarrow> bool" where
  "pan_inv s \<longleftrightarrow>
     zoom_current s = zoomLevel s
     \<and> zoom_min s \<le> zoomLevel s
     \<and> (zoomLevel s \<le> zoom_max s \<or> zoomLevel s = zoom_min s)
     \<and> 0 \<le> image_width s \<and> 0 \<le> image_height s
     \<and> dragX s = fst (dragOffset s) \<and> dragY s = snd (dragOffset s)
     \<and> \<bar>fst (dragOffset s)\<bar> \<le> spec_oversize (image_width s) (container_width s) (zoomLevel s) / 2
     \<and> \<bar>snd (dragOffset s)\<bar> \<le> spec_oversize (image_height s) (container_height s) (zoomLevel s) / 2"

definition metrics_inv :: "real \<Rightarrow> real \<Rightarrow> real \<Rightarrow> real \<Rightarrow> state \<Rightarrow> bool" where
  "metrics_inv iw ih cw ch t \<longleftrightarrow>
     image_width t = iw \<and> image_height t = ih
     \<and> container_width t = cw \<and> container_height t = ch
     \<and> zoom_max t = 3
     \<and> zoom_min t = (if iw > cw \<or> ih > ch then min (cw / iw) (ch / ih) else 1)"

definition pos_inv :: "state \<Rightarrow> bool" where
  "pos_inv s \<longleftrightarrow>
     0 < image_width s \<and> 0 < image_height s
     \<and> 0 < zoom_min s \<and> zoom_min s \<le> zoomLevel s
     \<and> zoom_current s = zoomLevel s"

section \<open>Auxiliary facts\<close>

lemmas handler_defs =
  run_def openViewer_def closeViewer_def reopen_def initial_def imageOnload_def
  onToggleModal_def onLoadContainer_def onLoadImage_def zoomIn_def zoomOut_def
  onDragStart_def onDragMove_def onDragEnd_def onPinPlace_def clamp_def Let_def

lemma example_open_eq:
  "example_open =
     \<lparr>shouldDisplayModal = True, image_width = 2000, image_height = 1000,
      container_width = 500, container_height = 500, imageRef = Some 7,
      baseX = 750, baseY = 250, dragX = 0, dragY = 0,
      zoom_min = 1 / 4, zoom_max = 3, zoom_current = 1 / 4,
      isDragging = False, dragOffset = (0, 0), zoomLevel = 1 / 4, pin = (0, 0)\<rparr>"
  by (simp add: example_open_def handler_defs)

lemma example_pinned_eq:
  "example_pinned =
     \<lparr>shouldDisplayModal = True, image_width = 2000, image_height = 1000,
      container_width = 500, container_height = 500, imageRef = Some 7,
      baseX = 750, baseY = 250, dragX = 100, dragY = 0,
      zoom_min = 1 / 4, zoom_max = 3, zoom_current = 7 / 20,
      isDragging = True, dragOffset = (100, 0), zoomLevel = 7 / 20, pin = (40, 80)\<rparr>"
  by (simp add: example_pinned_def example_open_eq handler_defs rect_at_def)

lemma example_collapsed_eq:
  "example_collapsed =
     \<lparr>shouldDisplayModal = True, image_width = 2, image_height = 2,
      container_width = 0, container_height = 0, imageRef = Some 7,
      baseX = 1, baseY = 1, dragX = 0, dragY = 0,
      zoom_min = 0, zoom_max = 3, zoom_current = 0,
      isDragging = False, dragOffset = (0, 0), zoomLevel = 0, pin = (0, 0)\<rparr>"
  by (simp add: example_collapsed_def handler_defs)

lemma example_late_eq:
  "example_late =
     \<lparr>shouldDisplayModal = True, image_width = 2000, image_height = 1000,
      container_width = 500, container_height = 500, imageRef = Some 7,
      baseX = - 499 / 2, baseY = - 499 / 2, dragX = 0, dragY = 0,
      zoom_min = 1, zoom_max = 3, zoom_current = 1,
      isDragging = False, dragOffset = (0, 0), zoomLevel = 1, pin = (0, 0)\<rparr>"
  by (simp add: example_late_def handler_defs)

subsection \<open>Clamping and oversize\<close>

lemma clamp_lower: "lo \<le> clamp x lo hi"
  by (simp add: clamp_def)

lemma clamp_abs: "0 \<le> b \<Longrightarrow> \<bar>clamp x (- b / 2) (b / 2)\<bar> \<le> b / 2"
  by (simp add: clamp_def max_def min_def abs_if)

lemma clamp_fix_or_lo:
  "lo \<le> clamp x lo hi \<and> (clamp x lo hi \<le> hi \<or> clamp x lo hi = lo)"
  by (simp add: clamp_def max_def min_def)

lemma clamp_step_up:
  "lo \<le> z \<Longrightarrow> z \<le> hi \<or> z = lo \<Longrightarrow> z \<le> clamp (z + 1 / 10) lo hi"
  by (auto simp add: clamp_def max_def min_def)

lemma spec_oversize_nonneg: "0 \<le> spec_oversize d c z"
  by (simp add: spec_oversize_def)

lemma spec_oversize_mono:
  assumes "0 \<le> d" and "z \<le> z'"
  shows "spec_oversize d c z \<le> spec_oversize d c z'"
proof -
  from assms have "d * z \<le> d * z'" by (rule mult_left_mono[rotated])
  then show ?thesis by (simp add: spec_oversize_def max_def)
qed

subsection \<open>The pan invariant is kept by the user's operations\<close>

lemma pan_inv_onLoadContainer:
  "0 \<le> image_width s \<Longrightarrow> 0 \<le> image_height s \<Longrightarrow> pan_inv (onLoadContainer (Some (cw, ch)) s)"
  by (simp add: pan_inv_def onLoadContainer_def Let_def spec_oversize_def)

lemma pan_inv_zoomIn:
  assumes "pan_inv s"
  shows "pan_inv (zoomIn s)"
proof -
  let ?nz = "clamp (zoomLevel s + 1 / 10) (zoom_min s) (zoom_max s)"
  from assms have up: "zoomLevel s \<le> ?nz"
    by (intro clamp_step_up) (simp_all add: pan_inv_def)
  from assms have iw: "0 \<le> image_width s" and ih: "0 \<le> image_height s"
    by (simp_all add: pan_inv_def)
  have mx: "spec_oversize (image_width s) (container_width s) (zoomLevel s)
       \<le> spec_oversize (image_width s) (container_width s) ?nz"
    by (rule spec_oversize_mono[OF iw up])
  have my: "spec_oversize (image_height s) (container_height s) (zoomLevel s)
       \<le> spec_oversize (image_height s) (container_height s) ?nz"
    by (rule spec_oversize_mono[OF ih up])
  from assms mx my clamp_fix_or_lo[of "zoom_min s" "zoomLevel s + 1 / 10" "zoom_max s"]
  show ?thesis
    by (simp add: pan_inv_def zoomIn_def Let_def)
qed

lemma pan_inv_zoomOut:
  assumes "pan_inv s"
  shows "pan_inv (zoomOut s)"
proof -
  let ?nz = "clamp (zoomLevel s - 1 / 10) (zoom_min s) (zoom_max s)"
  have bx: "\<bar>clamp (fst (dragOffset s))
        (- spec_oversize (image_width s) (container_width s) ?nz / 2)
        (spec_oversize (image_width s) (container_width s) ?nz / 2)\<bar>
      \<le> spec_oversize (image_width s) (container_width s) ?nz / 2"
    by (rule clamp_abs[OF spec_oversize_nonneg])
  have "\<bar>clamp (snd (dragOffset s))
        (- spec_oversize (image_height s) (container_height s) ?nz / 2)
        (spec_oversize (image_height s) (container_height s) ?nz / 2)\<bar>
      \<le> spec_oversize (image_height s) (container_height s) ?nz / 2"
    by (rule clamp_abs[OF spec_oversize_nonneg])
  with bx assms clamp_fix_or_lo[of "zoom_min s" "zoomLevel s - 1 / 10" "zoom_max s"]
  show ?thesis
    by (simp add: pan_inv_def zoomOut_def Let_def spec_oversize_def)
qed

lemma pan_inv_onDragMove:
  assumes "pan_inv s"
  shows "pan_inv (onDragMove e s)"
proof (cases "isDragging s")
  case False
  with assms show ?thesis by (simp add: onDragMove_def)
next
  case True
  have bx: "\<bar>clamp (fst (dragOffset s) - fst e)
        (- spec_oversize (image_width s) (container_width s) (zoomLevel s) / 2)
        (spec_oversize (image_width s) (container_width s) (zoomLevel s) / 2)\<bar>
      \<le> spec_oversize (image_width s) (container_width s) (zoomLevel s) / 2"
    by (rule clamp_abs[OF spec_oversize_nonneg])
  have "\<bar>clamp (snd (dragOffset s) - snd e)
        (- spec_oversize (image_height s) (container_height s) (zoomLevel s) / 2)
        (spec_oversize (image_height s) (container_height s) (zoomLevel s) / 2)\<bar>
      \<le> spec_oversize (image_height s) (container_height s) (zoomLevel s) / 2"
    by (rule clamp_abs[OF spec_oversize_nonneg])
  with bx assms True show ?thesis
    by (simp add: pan_inv_def onDragMove_def Let_def spec_oversize_def)
qed

lemma pan_inv_step: "pan_inv s \<Longrightarrow> user_event e \<Longrightarrow> pan_inv (step s e)"
proof (cases e)
  case (DoubleClick rect p)
  assume "pan_inv s"
  then show ?thesis using DoubleClick
    by (simp add: pan_inv_def onPinPlace_def Let_def split: option.splits)
qed (simp_all add: pan_inv_zoomIn pan_inv_zoomOut pan_inv_onDragMove,
     simp_all add: pan_inv_def onDragStart_def onDragEnd_def)

lemma pan_inv_run: "pan_inv s \<Longrightarrow> list_all user_event es \<Longrightarrow> pan_inv (run s es)"
  unfolding run_def
  by (induction es arbitrary: s) (simp_all add: pan_inv_step)

subsection \<open>What the events leave alone\<close>

lemma pin_step_other: "\<not> is_placement e \<Longrightarrow> pin (step s e) = pin s"
  by (cases e)
     (simp_all add: imageOnload_def onToggleModal_def onLoadContainer_def onLoadImage_def
        zoomIn_def zoomOut_def onDragStart_def onDragMove_def onDragEnd_def Let_def
        split: option.splits prod.splits)

lemma pin_run_other: "\<not> list_ex is_placement es \<Longrightarrow> pin (run s es) = pin s"
  unfolding run_def
  by (induction es arbitrary: s) (simp_all add: pin_step_other)

subsection \<open>Closing and reopening\<close>

lemma reopen_eq:
  "reopen c i s = onLoadContainer (Some c) (s\<lparr>imageRef := Some i\<rparr>)"
  by (simp add: reopen_def run_def closeViewer_def openViewer_def onToggleModal_def
      onLoadImage_def onLoadContainer_def)

lemma onLoadContainer_fields:
  "image_width (onLoadContainer (Some (cw, ch)) t) = image_width t"
  "image_height (onLoadContainer (Some (cw, ch)) t) = image_height t"
  "container_width (onLoadContainer (Some (cw, ch)) t) = cw"
  "container_height (onLoadContainer (Some (cw, ch)) t) = ch"
  "zoom_max (onLoadContainer (Some (cw, ch)) t) = 3"
  "zoom_min (onLoadContainer (Some (cw, ch)) t) =
     (if image_width t > cw \<or> image_height t > ch
      then min (cw / image_width t) (ch / image_height t) else 1)"
  by (simp_all add: onLoadContainer_def Let_def)

lemma reopen_fields:
  "image_width (reopen (cw, ch) i t) = image_width t"
  "image_height (reopen (cw, ch) i t) = image_height t"
  "container_width (reopen (cw, ch) i t) = cw"
  "container_height (reopen (cw, ch) i t) = ch"
  "zoom_max (reopen (cw, ch) i t) = 3"
  "zoom_min (reopen (cw, ch) i t) =
     (if image_width t > cw \<or> image_height t > ch
      then min (cw / image_width t) (ch / image_height t) else 1)"
  by (simp_all add: reopen_eq onLoadContainer_def Let_def)

lemma metrics_inv_onLoadContainer:
  "metrics_inv (image_width s) (image_height s) cw ch (onLoadContainer (Some (cw, ch)) s)"
  by (simp add: metrics_inv_def onLoadContainer_fields)

lemma metrics_inv_again:
  "metrics_inv iw ih cw ch t \<Longrightarrow> metrics_inv iw ih cw ch (onLoadContainer (Some (cw, ch)) t)"
  by (simp add: metrics_inv_def onLoadContainer_fields)

lemma metrics_inv_step:
  assumes "metrics_inv iw ih cw ch t" and "keeps_metrics (cw, ch) e"
  shows "metrics_inv iw ih cw ch (step t e)"
proof (cases e)
  case (ImageLoaded w h)
  with assms(2) show ?thesis by simp
next
  case ToggleModal
  with assms(1) show ?thesis by (simp add: metrics_inv_def onToggleModal_def)
next
  case (ContainerRef r)
  show ?thesis
  proof (cases r)
    case None
    with assms(1) ContainerRef show ?thesis by (simp add: onLoadContainer_def)
  next
    case (Some c)
    with assms(2) ContainerRef have "c = (cw, ch)" by simp
    with assms(1) ContainerRef Some show ?thesis by (simp add: metrics_inv_again)
  qed
next
  case (ImageElementRef r)
  with assms(1) show ?thesis
    by (simp add: metrics_inv_def onLoadImage_def split: option.splits)
next
  case ZoomIn
  with assms(1) show ?thesis by (simp add: metrics_inv_def zoomIn_def Let_def)
next
  case ZoomOut
  with assms(1) show ?thesis by (simp add: metrics_inv_def zoomOut_def Let_def)
next
  case PointerDown
  with assms(1) show ?thesis by (simp add: metrics_inv_def onDragStart_def)
next
  case (PointerMove m)
  with assms(1) show ?thesis by (simp add: metrics_inv_def onDragMove_def Let_def)
next
  case PointerUp
  with assms(1) show ?thesis by (simp add: metrics_inv_def onDragEnd_def)
next
  case (DoubleClick rect q)
  with assms(1) show ?thesis
    by (simp add: metrics_inv_def onPinPlace_def Let_def split: option.splits)
qed

lemma metrics_inv_run:
  "metrics_inv iw ih cw ch t \<Longrightarrow> list_all (keeps_metrics (cw, ch)) es
     \<Longrightarrow> metrics_inv iw ih cw ch (run t es)"
  unfolding run_def
  by (induction es arbitrary: t) (simp_all add: metrics_inv_step)

lemma reopen_after_session:
  assumes "list_all (keeps_metrics (cw, ch)) es"
  shows "zoom_min (reopen (cw, ch) i (run (onLoadContainer (Some (cw, ch)) s) es))
          = zoom_min (run (onLoadContainer (Some (cw, ch)) s) es)
        \<and> zoom_max (reopen (cw, ch) i (run (onLoadContainer (Some (cw, ch)) s) es))
          = zoom_max (run (onLoadContainer (Some (cw, ch)) s) es)
        \<and> container_width (reopen (cw, ch) i (run (onLoadContainer (Some (cw, ch)) s) es))
          = container_width (run (onLoadContainer (Some (cw, ch)) s) es)
        \<and> container_height (reopen (cw, ch) i (run (onLoadContainer (Some (cw, ch)) s) es))
          = container_height (run (onLoadContainer (Some (cw, ch)) s) es)"
proof -
  have "metrics_inv (image_width s) (image_height s) cw ch
          (run (onLoadContainer (Some (cw, ch)) s) es)"
    by (rule metrics_inv_run[OF metrics_inv_onLoadContainer assms])
  then show ?thesis
    by (simp add: metrics_inv_def reopen_fields)
qed

subsection \<open>Positive sizes give a positive zoom\<close>

lemma pos_inv_initial: "pos_inv initial"
  by (simp add: pos_inv_def initial_def)

lemma pos_inv_onLoadContainer:
  assumes "pos_inv s" and "0 < cw" and "0 < ch"
  shows "pos_inv (onLoadContainer (Some (cw, ch)) s)"
  using assms by (simp add: pos_inv_def onLoadContainer_def Let_def)

lemma pos_inv_step:
  assumes "pos_inv s" and "positive_sizes e"
  shows "pos_inv (step s e)"
proof (cases e)
  case (ImageLoaded w h)
  with assms show ?thesis by (simp add: pos_inv_def imageOnload_def)
next
  case ToggleModal
  with assms show ?thesis by (simp add: pos_inv_def onToggleModal_def)
next
  case (ContainerRef r)
  show ?thesis
  proof (cases r)
    case None
    with assms ContainerRef show ?thesis by (simp add: onLoadContainer_def)
  next
    case (Some c)
    obtain cw ch where c: "c = (cw, ch)" by (cases c)
    with assms ContainerRef Some show ?thesis
      by (simp add: pos_inv_onLoadContainer)
  qed
next
  case (ImageElementRef r)
  with assms show ?thesis by (simp add: pos_inv_def onLoadImage_def split: option.splits)
next
  case ZoomIn
  with assms clamp_lower[of "zoom_min s" "zoomLevel s + 1 / 10" "zoom_max s"]
  show ?thesis by (simp add: pos_inv_def zoomIn_def Let_def)
next
  case ZoomOut
  with assms clamp_lower[of "zoom_min s" "zoomLevel s - 1 / 10" "zoom_max s"]
  show ?thesis by (simp add: pos_inv_def zoomOut_def Let_def)
next
  case PointerDown
  with assms show ?thesis by (simp add: pos_inv_def onDragStart_def)
next
  case (PointerMove m)
  with assms show ?thesis by (simp add: pos_inv_def onDragMove_def Let_def)
next
  case PointerUp
  with assms show ?thesis by (simp add: pos_inv_def onDragEnd_def)
next
  case (DoubleClick rect p)
  with assms show ?thesis by (simp add: pos_inv_def onPinPlace_def Let_def split: option.splits)
qed

lemma pos_inv_run: "pos_inv s \<Longrightarrow> list_all positive_sizes es \<Longrightarrow> pos_inv (run s es)"
  unfolding run_def
  by (induction es arbitrary: s) (simp_all add: pos_inv_step)

lemma divisors_nonzero:
  assumes "0 < image_width s" and "0 < image_height s" and "0 < zoom_current s"
  shows "\<forall>d \<in> set (divisors e s). d \<noteq> 0"
proof (cases e)
  case (ContainerRef r)
  show ?thesis
  proof (cases r)
    case None
    with ContainerRef show ?thesis by simp
  next
    case (Some c)
    obtain cw ch where "c = (cw, ch)" by (cases c)
    with ContainerRef Some assms show ?thesis by auto
  qed
next
  case (DoubleClick rect p)
  with assms show ?thesis by (simp split: option.splits)
qed simp_all

section \<open>Container load\<close>

text \<open>
  C1. After the container callback has run on an element of size \<open>cw \<times> ch\<close>, with
  the image metrics \<open>image_width s \<times> image_height s\<close> recorded: the minimum zoom is
  \<open>1\<close> if the image fits on both axes and the smaller fit ratio otherwise, the
  maximum zoom is \<open>3\<close>, the zoom level (ref and state) is the minimum, the base
  offset is half the difference of the sizes on each axis, and the pan offset (ref
  and state) is \<open>(0, 0)\<close>.
\<close>

theorem onLoadContainer_initialises:
  "zoom_min (onLoadContainer (Some (cw, ch)) s) =
     (if image_width s \<le> cw \<and> image_height s \<le> ch then 1
      else min (cw / image_width s) (ch / image_height s))
   \<and> zoom_max (onLoadContainer (Some (cw, ch)) s) = 3
   \<and> zoomLevel (onLoadContainer (Some (cw, ch)) s) = zoom_min (onLoadContainer (Some (cw, ch)) s)
   \<and> zoom_current (onLoadContainer (Some (cw, ch)) s) = zoom_min (onLoadContainer (Some (cw, ch)) s)
   \<and> baseX (onLoadContainer (Some (cw, ch)) s) = (image_width s - cw) / 2
   \<and> baseY (onLoadContainer (Some (cw, ch)) s) = (image_height s - ch) / 2
   \<and> dragOffset (onLoadContainer (Some (cw, ch)) s) = (0, 0)
   \<and> dragX (onLoadContainer (Some (cw, ch)) s) = 0
   \<and> dragY (onLoadContainer (Some (cw, ch)) s) = 0
   \<and> container_width (onLoadContainer (Some (cw, ch)) s) = cw
   \<and> container_height (onLoadContainer (Some (cw, ch)) s) = ch
   \<and> image_width (onLoadContainer (Some (cw, ch)) s) = image_width s
   \<and> image_height (onLoadContainer (Some (cw, ch)) s) = image_height s"
  by (simp add: onLoadContainer_def Let_def not_less)


section \<open>The pan offset stays within the oversize\<close>

text \<open>
  C2. In every state reached from the initialised one (the state right after the
  container callback has run, the recorded image size being strictly positive, so
  that the fit ratios have a divisor that is not zero) by any
  sequence of pointer down, pointer move, pointer up, zoom in, zoom out and double
  click, the pan offset is within half the oversize on each axis:
  \<open>|PanOffset.x| \<le> oversizeX(ZoomLevel) / 2\<close> and the same for \<open>y\<close>, both for the
  state copy (\<open>dragOffset\<close>, \<open>zoomLevel\<close>) and for the ref copy (\<open>dragX\<close>, \<open>dragY\<close>,
  \<open>zoom_current\<close>).
\<close>

theorem pan_within_oversize:
  assumes "0 < image_width s0" and "0 < image_height s0"
    and "list_all user_event es"
    and "s = run (onLoadContainer (Some (cw, ch)) s0) es"
  shows "\<bar>fst (dragOffset s)\<bar> \<le> spec_oversize (image_width s) (container_width s) (zoomLevel s) / 2
       \<and> \<bar>snd (dragOffset s)\<bar> \<le> spec_oversize (image_height s) (container_height s) (zoomLevel s) / 2
       \<and> \<bar>dragX s\<bar> \<le> spec_oversize (image_width s) (container_width s) (zoom_current s) / 2
       \<and> \<bar>dragY s\<bar> \<le> spec_oversize (image_height s) (container_height s) (zoom_current s) / 2"
proof -
  have "pan_inv s"
    unfolding assms(4)
    by (rule pan_inv_run[OF pan_inv_onLoadContainer[OF less_imp_le[OF assms(1)]
            less_imp_le[OF assms(2)]] assms(3)])
  then have a: "zoom_current s = zoomLevel s" and b: "dragX s = fst (dragOffset s)"
    and c: "dragY s = snd (dragOffset s)"
    and d: "\<bar>fst (dragOffset s)\<bar> \<le> spec_oversize (image_width s) (container_width s) (zoomLevel s) / 2"
    and e: "\<bar>snd (dragOffset s)\<bar> \<le> spec_oversize (image_height s) (container_height s) (zoomLevel s) / 2"
    by (auto simp add: pan_inv_def)
  show ?thesis using d e by (simp add: a b c)
qed

text \<open>
  An instance: the image of \<open>2000 \<times> 1000\<close> in the container of \<open>500 \<times> 500\<close>, one
  zoom step in (to \<open>7/20\<close>, where the oversize is \<open>200\<close> on \<open>x\<close> and \<open>0\<close> on \<open>y\<close>),
  then a drag by \<open>(-1000, 50)\<close>: the pan offset stops at \<open>(100, 0)\<close>.
\<close>

theorem pan_within_oversize_witness:
  "0 < image_width (imageOnload 2000 1000 initial)
   \<and> 0 < image_height (imageOnload 2000 1000 initial)
   \<and> list_all user_event [ZoomIn, PointerDown, PointerMove (- 1000, 50)]
   \<and> dragOffset (run (onLoadContainer (Some (500, 500)) (imageOnload 2000 1000 initial))
        [ZoomIn, PointerDown, PointerMove (- 1000, 50)]) = (100, 0)
   \<and> spec_oversize 2000 500 (7 / 20) / 2 = 100
   \<and> \<bar>fst (dragOffset (run (onLoadContainer (Some (500, 500)) (imageOnload 2000 1000 initial))
        [ZoomIn, PointerDown, PointerMove (- 1000, 50)]))\<bar> \<le> 100"
  using pan_within_oversize[of "imageOnload 2000 1000 initial"
      "[ZoomIn, PointerDown, PointerMove (- 1000, 50)]"
      "run (onLoadContainer (Some (500, 500)) (imageOnload 2000 1000 initial))
        [ZoomIn, PointerDown, PointerMove (- 1000, 50)]" 500 500]
  by (simp add: handler_defs spec_oversize_def)

section \<open>The drag gesture\<close>

text \<open>
  C3. The drag session has two states, idle and dragging (\<open>isDragging\<close>). Pointer
  down makes it dragging and pointer up makes it idle, changing nothing else. A
  pointer move by \<open>(dx, dy)\<close> while dragging stays dragging and sets the pan offset
  (state and ref) to \<open>clampOffset(PanOffset - (dx, dy), image, container, zoom)\<close> at
  the current zoom, changing nothing else; a pointer move while idle changes no
  state at all.
\<close>

theorem drag_machine:
  "isDragging (onDragStart s)
   \<and> onDragStart s = s\<lparr>isDragging := True\<rparr>
   \<and> \<not> isDragging (onDragEnd s)
   \<and> onDragEnd s = s\<lparr>isDragging := False\<rparr>
   \<and> (isDragging s \<longrightarrow>
        isDragging (onDragMove (dx, dy) s)
        \<and> dragOffset (onDragMove (dx, dy) s) =
            spec_clampOffset (fst (dragOffset s) - dx, snd (dragOffset s) - dy)
              (image_width s, image_height s) (container_width s, container_height s)
              (zoom_current s)
        \<and> (dragX (onDragMove (dx, dy) s), dragY (onDragMove (dx, dy) s)) =
            dragOffset (onDragMove (dx, dy) s)
        \<and> onDragMove (dx, dy) s =
            s\<lparr>dragX := dragX (onDragMove (dx, dy) s),
              dragY := dragY (onDragMove (dx, dy) s),
              dragOffset := dragOffset (onDragMove (dx, dy) s)\<rparr>)
   \<and> (\<not> isDragging s \<longrightarrow> onDragMove (dx, dy) s = s)"
  by (simp add: onDragStart_def onDragEnd_def onDragMove_def spec_clampOffset_def
      spec_oversize_def Let_def)

text \<open>
  An instance: in the example session that is dragging at zoom \<open>7/20\<close> with the pan
  offset \<open>(100, 0)\<close>, a move by \<open>(150, 0)\<close> gives \<open>(-50, 0)\<close>; in the idle example
  session the same move changes nothing.
\<close>

theorem drag_machine_witness:
  "isDragging example_pinned
   \<and> isDragging (onDragMove (150, 0) example_pinned)
   \<and> dragOffset (onDragMove (150, 0) example_pinned) = (- 50, 0)
   \<and> \<not> isDragging example_open
   \<and> onDragMove (150, 0) example_open = example_open
   \<and> isDragging (onDragStart example_open)
   \<and> \<not> isDragging (onDragEnd example_pinned)"
  using drag_machine[of example_pinned 150 0] drag_machine[of example_open 150 0]
  by (simp add: example_pinned_eq example_open_eq spec_clampOffset_def spec_oversize_def
      clamp_def)

section \<open>Zoom steps\<close>

text \<open>
  C4. For every current zoom within the zoom range and every delta,
  \<open>step(current, delta) = clamp(current + delta, min, max)\<close> lies within the range.
  \<open>zoomIn\<close> is one such step with delta \<open>+0.1\<close> and \<open>zoomOut\<close> one with delta
  \<open>-0.1\<close>, written to the state and to the ref; \<open>zoomIn\<close> changes nothing else.
\<close>

theorem zoom_step_clamped:
  "lo \<le> current \<Longrightarrow> current \<le> hi \<Longrightarrow>
   lo \<le> spec_step (lo, hi) current delta \<and> spec_step (lo, hi) current delta \<le> hi
   \<and> zoomLevel (zoomIn s) = spec_step (zoom_min s, zoom_max s) (zoomLevel s) (1 / 10)
   \<and> zoom_current (zoomIn s) = zoomLevel (zoomIn s)
   \<and> zoomIn s = s\<lparr>zoom_current := zoomLevel (zoomIn s), zoomLevel := zoomLevel (zoomIn s)\<rparr>
   \<and> zoomLevel (zoomOut s) = spec_step (zoom_min s, zoom_max s) (zoomLevel s) (- (1 / 10))
   \<and> zoom_current (zoomOut s) = zoomLevel (zoomOut s)"
  by (simp add: spec_step_def zoomIn_def zoomOut_def Let_def clamp_def)

text \<open>
  An instance: in the range \<open>[1/4, 3]\<close> a step of \<open>-1/10\<close> from \<open>1/4\<close> stays at
  \<open>1/4\<close>, and in the example session \<open>zoomIn\<close> goes from \<open>1/4\<close> to \<open>7/20\<close>.
\<close>

theorem zoom_step_clamped_witness:
  "(1 / 4 :: real) \<le> 1 / 4 \<and> (1 / 4 :: real) \<le> 3
   \<and> spec_step (1 / 4, 3) (1 / 4) (- (1 / 10)) = 1 / 4
   \<and> zoomLevel (zoomIn example_open) = 7 / 20
   \<and> zoomLevel (zoomOut example_open) = 1 / 4"
  using zoom_step_clamped[of "1 / 4" "1 / 4" 3 "- (1 / 10)" example_open]
  by (simp add: example_open_eq spec_step_def clamp_def)

section \<open>Placing a pin where it was clicked\<close>

text \<open>
  C5. For every image-local point \<open>p\<close>, every base offset and pan offset, and every
  zoom \<open>z\<close> that is strictly positive (so for every \<open>z\<close> of the zoom range when its
  minimum is positive, as it is when all recorded sizes are): with the image drawn
  under the placement transform \<open>translateX = -base.x - pan.x\<close>,
  \<open>translateY = -base.y - pan.y\<close>, \<open>scale = z\<close>, a double click on the screen
  position of \<open>p\<close>, read against the on-screen origin of the drawn image at the same
  zoom, stores exactly \<open>p\<close> as the pin. This holds wherever the image element is
  laid out and whatever its size \<open>sz\<close> (not negative) is.
\<close>

theorem pin_round_trip:
  assumes "imageRef s = Some r"
    and "0 < zoom_current s" and "zoomLevel s = zoom_current s"
    and "0 \<le> fst sz" and "0 \<le> snd sz"
    and "transform (render s) = Some tr"
    and "rect r = css_box_origin layout sz tr"
  shows "tr = (- baseX s - fst (dragOffset s), - baseY s - snd (dragOffset s), zoom_current s)
       \<and> pin (onPinPlace rect (css_point layout sz tr p) s) = p"
proof -
  let ?z = "zoom_current s"
  from assms(6) have tr: "tr = (- baseX s - fst (dragOffset s), - baseY s - snd (dragOffset s), ?z)"
    by (simp add: render_def assms(3) split: if_splits)
  have w: "?z * (0 - fst sz / 2) \<le> ?z * (fst sz - fst sz / 2)"
    using assms(2,4) by (intro mult_left_mono) simp_all
  have h: "?z * (0 - snd sz / 2) \<le> ?z * (snd sz - snd sz / 2)"
    using assms(2,5) by (intro mult_left_mono) simp_all
  have box: "rect r = css_point layout sz tr (0, 0)"
    using w h unfolding assms(7) css_box_origin_def css_point_def tr
    by (simp add: min_def)
  have "pin (onPinPlace rect (css_point layout sz tr p) s)
      = ((?z * fst p) / ?z, (?z * snd p) / ?z)"
    by (simp add: onPinPlace_def assms(1) Let_def box css_point_def tr algebra_simps)
  also have "\<dots> = p" using assms(2) by simp
  finally show ?thesis using tr by simp
qed

text \<open>
  An instance: the example session at zoom \<open>1/4\<close>, the image element of size
  \<open>2000 \<times> 1000\<close> laid out at \<open>(10, 20)\<close>; the
  transform is \<open>(-750, -250, 1/4)\<close>, the image-local point \<open>(40, 80)\<close> is drawn at
  \<open>(20, 165)\<close>, the drawn image has its origin at \<open>(10, 145)\<close>, and the click
  stores \<open>(40, 80)\<close>.
\<close>

theorem pin_round_trip_witness:
  "imageRef example_open = Some 7
   \<and> 0 < zoom_current example_open
   \<and> zoomLevel example_open = zoom_current example_open
   \<and> transform (render example_open) = Some (- 750, - 250, 1 / 4)
   \<and> css_box_origin (10, 20) (2000, 1000) (- 750, - 250, 1 / 4) = (10, 145)
   \<and> css_point (10, 20) (2000, 1000) (- 750, - 250, 1 / 4) (40, 80) = (20, 165)
   \<and> pin (onPinPlace (rect_at (10, 145)) (20, 165) example_open) = (40, 80)"
  using pin_round_trip[where s = example_open and r = 7 and sz = "(2000, 1000)"
      and tr = "(- 750, - 250, 1 / 4)" and rect = "rect_at (10, 145)"
      and layout = "(10, 20)" and p = "(40, 80)"]
  by (simp add: example_open_eq render_def css_box_origin_def css_point_def rect_at_def
      onPinPlace_def)

text \<open>
  The round trip fails at zoom \<open>0\<close>, which lies in the zoom range of the session
  whose container reports the size \<open>0 \<times> 0\<close>: the range is \<open>[0, 3]\<close> and the zoom level
  is \<open>0\<close>. There the image-local points \<open>(1, 1)\<close> and \<open>(2, 2)\<close> are drawn at the same
  screen position, and a click on it does not store \<open>(2, 2)\<close> (the quotient has the
  divisor \<open>0\<close>).
\<close>

theorem pin_round_trip_counterexample:
  "imageRef example_collapsed = Some 7
   \<and> zoom_min example_collapsed \<le> zoom_current example_collapsed
   \<and> zoom_current example_collapsed \<le> zoom_max example_collapsed
   \<and> zoomLevel example_collapsed = zoom_current example_collapsed
   \<and> zoom_current example_collapsed = 0
   \<and> transform (render example_collapsed) = Some (- 1, - 1, 0)
   \<and> css_point (10, 20) (2, 2) (- 1, - 1, 0) (1, 1)
       = css_point (10, 20) (2, 2) (- 1, - 1, 0) (2, 2)
   \<and> pin (onPinPlace (rect_at (css_box_origin (10, 20) (2, 2) (- 1, - 1, 0)))
            (css_point (10, 20) (2, 2) (- 1, - 1, 0) (2, 2)) example_collapsed)
       \<noteq> (2, 2)"
  by (simp add: example_collapsed_eq render_def css_box_origin_def css_point_def rect_at_def
      onPinPlace_def)

section \<open>The pin marker\<close>

text \<open>
  C6. The pin position is never absent: it is \<open>(0, 0)\<close> when the component mounts
  and stays so until the first placement. Whenever the large view is shown the
  render surface receives exactly one pin marker, at the current pin position and
  with the inverse scale \<open>1 / zoomLevel\<close>, whether or not a pin was ever placed (and
  none when only the small image is shown). A placement with the image handle
  present replaces the pin position by the new one, whatever the old one was.
\<close>

theorem pin_always_rendered:
  "(\<not> list_ex is_placement es \<longrightarrow> pin (run initial es) = (0, 0))
   \<and> markers (render s) =
       (if shouldDisplayModal s then [(fst (pin s), snd (pin s), 1 / zoomLevel s)] else [])
   \<and> (imageRef s = Some r \<longrightarrow>
        pin (onPinPlace rect e s) =
          ((fst e - fst (rect r)) / zoom_current s, (snd e - snd (rect r)) / zoom_current s))"
proof -
  have "pin initial = (0, 0)" by (simp add: initial_def)
  then have "\<not> list_ex is_placement es \<longrightarrow> pin (run initial es) = (0, 0)"
    by (simp add: pin_run_other)
  then show ?thesis
    by (simp add: render_def onPinPlace_def Let_def)
qed

text \<open>
  An instance: opening the example session involves no placement and leaves the pin
  at \<open>(0, 0)\<close>; in the session with a pin at \<open>(40, 80)\<close> and zoom \<open>7/20\<close> the marker is
  \<open>(40, 80, 20/7)\<close>, and a second placement replaces the pin.
\<close>

theorem pin_always_rendered_witness:
  "\<not> list_ex is_placement (ImageLoaded 2000 1000 # openViewer (500, 500) 7)
   \<and> pin (run initial (ImageLoaded 2000 1000 # openViewer (500, 500) 7)) = (0, 0)
   \<and> markers (render example_pinned) = [(40, 80, 20 / 7)]
   \<and> imageRef example_pinned = Some 7
   \<and> pin (onPinPlace (rect_at (100, 100)) (107, 114) example_pinned) = (20, 40)"
  using pin_always_rendered[of "ImageLoaded 2000 1000 # openViewer (500, 500) 7"
      example_pinned 7 "rect_at (100, 100)" "(107, 114)"]
  by (simp add: example_pinned_eq openViewer_def rect_at_def)

text \<open>
  Before any placement the pin is not absent and a marker is rendered for it: after
  the viewer is opened on the unloaded image, with no double click so far, the pin is
  \<open>(0, 0)\<close> and the render surface receives the marker \<open>(0, 0, 1)\<close>.
\<close>

theorem pin_absent_counterexample:
  "\<not> list_ex is_placement (openViewer (500, 500) 7)
   \<and> pin (run initial (openViewer (500, 500) 7)) = (0, 0)
   \<and> markers (render (run initial (openViewer (500, 500) 7))) = [(0, 0, 1)]"
  by (simp add: handler_defs render_def)

section \<open>Closing and reopening the viewer\<close>

text \<open>
  C7. When the viewer is closed and then reopened on a container of size
  \<open>cw \<times> ch\<close>, the zoom level (state and ref) is reset to the minimum of the zoom range
  and the pan offset (state and ref) to \<open>(0, 0)\<close>; the pin position and the drag
  session are kept as they were. The image metrics are kept. The container metrics
  and the zoom range are recorded again, from the image metrics at that moment and
  the size of the new container (the minimum as \<open>onLoadContainer\<close> computes it, the
  maximum \<open>3\<close>); they are the same as before when, since the container metrics were
  last recorded, no image load and no container load of another size has occurred
  and the new container has the same size.
\<close>

theorem reopen_resets_zoom_and_pan:
  "zoomLevel (reopen (cw, ch) i s) = zoom_min (reopen (cw, ch) i s)
   \<and> zoom_current (reopen (cw, ch) i s) = zoom_min (reopen (cw, ch) i s)
   \<and> dragOffset (reopen (cw, ch) i s) = (0, 0)
   \<and> dragX (reopen (cw, ch) i s) = 0 \<and> dragY (reopen (cw, ch) i s) = 0
   \<and> pin (reopen (cw, ch) i s) = pin s
   \<and> isDragging (reopen (cw, ch) i s) = isDragging s
   \<and> shouldDisplayModal (reopen (cw, ch) i s) = shouldDisplayModal s
   \<and> image_width (reopen (cw, ch) i s) = image_width s
   \<and> image_height (reopen (cw, ch) i s) = image_height s
   \<and> container_width (reopen (cw, ch) i s) = cw
   \<and> container_height (reopen (cw, ch) i s) = ch
   \<and> zoom_min (reopen (cw, ch) i s) = zoom_min (onLoadContainer (Some (cw, ch)) s)
   \<and> zoom_max (reopen (cw, ch) i s) = 3
   \<and> (list_all (keeps_metrics (cw, ch)) es \<longrightarrow>
        zoom_min (reopen (cw, ch) i (run (onLoadContainer (Some (cw, ch)) s) es))
          = zoom_min (run (onLoadContainer (Some (cw, ch)) s) es)
        \<and> zoom_max (reopen (cw, ch) i (run (onLoadContainer (Some (cw, ch)) s) es))
          = zoom_max (run (onLoadContainer (Some (cw, ch)) s) es)
        \<and> container_width (reopen (cw, ch) i (run (onLoadContainer (Some (cw, ch)) s) es))
          = container_width (run (onLoadContainer (Some (cw, ch)) s) es)
        \<and> container_height (reopen (cw, ch) i (run (onLoadContainer (Some (cw, ch)) s) es))
          = container_height (run (onLoadContainer (Some (cw, ch)) s) es))"
proof -
  have b: "zoomLevel (reopen (cw, ch) i s) = zoom_min (reopen (cw, ch) i s)
   \<and> zoom_current (reopen (cw, ch) i s) = zoom_min (reopen (cw, ch) i s)
   \<and> dragOffset (reopen (cw, ch) i s) = (0, 0)
   \<and> dragX (reopen (cw, ch) i s) = 0 \<and> dragY (reopen (cw, ch) i s) = 0
   \<and> pin (reopen (cw, ch) i s) = pin s
   \<and> isDragging (reopen (cw, ch) i s) = isDragging s
   \<and> shouldDisplayModal (reopen (cw, ch) i s) = shouldDisplayModal s
   \<and> image_width (reopen (cw, ch) i s) = image_width s
   \<and> image_height (reopen (cw, ch) i s) = image_height s
   \<and> container_width (reopen (cw, ch) i s) = cw
   \<and> container_height (reopen (cw, ch) i s) = ch
   \<and> zoom_min (reopen (cw, ch) i s) = zoom_min (onLoadContainer (Some (cw, ch)) s)
   \<and> zoom_max (reopen (cw, ch) i s) = 3"
    by (simp add: reopen_eq onLoadContainer_def Let_def)
  from b reopen_after_session[where es = es and cw = cw and ch = ch and i = i and s = s]
  show ?thesis by blast
qed

text \<open>
  An instance: reopening the session that has a pin at \<open>(40, 80)\<close>, the zoom
  \<open>7/20\<close>, the pan offset \<open>(100, 0)\<close> and a drag going on, gives the zoom \<open>1/4\<close> and
  the pan offset \<open>(0, 0)\<close>; and after a zoom step and a click on the toggle in a
  session initialised on \<open>500 \<times> 500\<close>, reopening leaves the zoom range at
  \<open>[1/4, 3]\<close>.
\<close>

theorem reopen_resets_zoom_and_pan_witness:
  "zoomLevel example_pinned = 7 / 20 \<and> dragOffset example_pinned = (100, 0)
   \<and> zoomLevel (reopen (500, 500) 8 example_pinned) = 1 / 4
   \<and> dragOffset (reopen (500, 500) 8 example_pinned) = (0, 0)
   \<and> list_all (keeps_metrics (500, 500)) [ZoomIn, ToggleModal]
   \<and> zoom_min (run (onLoadContainer (Some (500, 500)) example_pinned)
        [ZoomIn, ToggleModal]) = 1 / 4
   \<and> zoom_min (reopen (500, 500) 8
        (run (onLoadContainer (Some (500, 500)) example_pinned) [ZoomIn, ToggleModal])) = 1 / 4
   \<and> zoom_max (reopen (500, 500) 8
        (run (onLoadContainer (Some (500, 500)) example_pinned) [ZoomIn, ToggleModal])) = 3"
  using reopen_resets_zoom_and_pan[of 500 500 8 example_pinned "[ZoomIn, ToggleModal]"]
  by (simp add: example_pinned_eq reopen_eq run_def onLoadContainer_def zoomIn_def
      onToggleModal_def Let_def)

text \<open>
  The pin position and the drag session are not reset: the session with a pin at
  \<open>(40, 80)\<close> and a drag going on still has both after it is closed and reopened,
  where the freshly mounted component has the pin \<open>(0, 0)\<close> and no drag. And the zoom
  range is not written once: in the viewer opened on \<open>500 \<times> 500\<close> before its image
  of \<open>2000 \<times> 1000\<close> loaded, the range is \<open>[1, 3]\<close>, and closing and reopening it on
  a container of the same size makes it \<open>[1/4, 3]\<close>.
\<close>

theorem reopen_counterexample:
  "pin example_pinned = (40, 80) \<and> isDragging example_pinned
   \<and> shouldDisplayModal example_pinned
   \<and> pin (reopen (500, 500) 8 example_pinned) = (40, 80)
   \<and> isDragging (reopen (500, 500) 8 example_pinned)
   \<and> pin initial = (0, 0) \<and> \<not> isDragging initial
   \<and> container_width example_late = 500 \<and> container_height example_late = 500
   \<and> zoom_min example_late = 1 \<and> zoom_max example_late = 3
   \<and> zoom_min (reopen (500, 500) 8 example_late) = 1 / 4
   \<and> zoom_max (reopen (500, 500) 8 example_late) = 3"
  by (simp add: example_pinned_eq example_late_eq reopen_eq onLoadContainer_def Let_def
      initial_def)

section \<open>Double click without an image handle\<close>

text \<open>
  C8. If the image handle is not yet available, a double click leaves the pin
  position and all other state unchanged. If the handle is available, the double
  click at \<open>(cx, cy)\<close> replaces the pin position by
  \<open>((cx - originX) / currentZoom, (cy - originY) / currentZoom)\<close>, where the origin is
  the on-screen origin of the drawn image (its bounding rectangle's), which is the
  specification's \<open>screenToImageLocal\<close>, and changes nothing else.
\<close>

theorem onPinPlace_handle:
  "(imageRef s = None \<longrightarrow> onPinPlace rect (cx, cy) s = s)
   \<and> (\<forall>r. imageRef s = Some r \<longrightarrow>
         onPinPlace rect (cx, cy) s =
           s\<lparr>pin := ((cx - fst (rect r)) / zoom_current s,
                      (cy - snd (rect r)) / zoom_current s)\<rparr>
         \<and> pin (onPinPlace rect (cx, cy) s) =
             spec_screenToImageLocal (cx, cy) (rect r) (zoom_current s))"
  by (simp add: onPinPlace_def spec_screenToImageLocal_def Let_def)

text \<open>
  An instance: on the freshly mounted component, which has no handle, the double
  click changes nothing; in the example session at zoom \<open>1/4\<close> a double click at
  \<open>(110, 120)\<close> on an image drawn from \<open>(100, 100)\<close> stores \<open>(40, 80)\<close>.
\<close>

theorem onPinPlace_handle_witness:
  "imageRef initial = None
   \<and> onPinPlace (rect_at (100, 100)) (110, 120) initial = initial
   \<and> imageRef example_open = Some 7
   \<and> pin (onPinPlace (rect_at (100, 100)) (110, 120) example_open) = (40, 80)
   \<and> spec_screenToImageLocal (110, 120) (100, 100) (1 / 4) = (40, 80)"
  using onPinPlace_handle[of initial "rect_at (100, 100)" 110 120]
    onPinPlace_handle[of example_open "rect_at (100, 100)" 110 120]
  by (simp add: example_open_eq initial_def rect_at_def spec_screenToImageLocal_def)

section \<open>Ordering of the zoom range\<close>

text \<open>
  C9. For every strictly positive image size and every container size that is not
  negative, the minimum of the zoom range is at most \<open>1\<close>; it is strictly below \<open>1\<close>
  if and only if the image is strictly larger than the container on some axis; and
  it is at most the maximum of the zoom range.
\<close>

theorem zoom_range_ordering:
  assumes "0 < image_width s" and "0 < image_height s" and "0 \<le> cw" and "0 \<le> ch"
  shows "zoom_min (onLoadContainer (Some (cw, ch)) s) \<le> 1
       \<and> (zoom_min (onLoadContainer (Some (cw, ch)) s) < 1
            \<longleftrightarrow> image_width s > cw \<or> image_height s > ch)
       \<and> zoom_min (onLoadContainer (Some (cw, ch)) s)
            \<le> zoom_max (onLoadContainer (Some (cw, ch)) s)"
proof (cases "image_width s > cw \<or> image_height s > ch")
  case False
  then show ?thesis by (simp add: onLoadContainer_def Let_def)
next
  case True
  have "min (cw / image_width s) (ch / image_height s) < 1"
    using True assms by (auto simp add: min_less_iff_disj)
  with True show ?thesis by (simp add: onLoadContainer_def Let_def)
qed

text \<open>
  An instance: the image of \<open>2000 \<times> 1000\<close> in the container of \<open>500 \<times> 500\<close> is larger
  on both axes and gets the minimum \<open>1/4\<close>.
\<close>

theorem zoom_range_ordering_witness:
  "0 < image_width (imageOnload 2000 1000 initial)
   \<and> 0 < image_height (imageOnload 2000 1000 initial)
   \<and> (0 :: real) \<le> 500
   \<and> zoom_min (onLoadContainer (Some (500, 500)) (imageOnload 2000 1000 initial)) = 1 / 4
   \<and> zoom_min (onLoadContainer (Some (500, 500)) (imageOnload 2000 1000 initial)) < 1
   \<and> image_width (imageOnload 2000 1000 initial) > 500
   \<and> zoom_max (onLoadContainer (Some (500, 500)) (imageOnload 2000 1000 initial)) = 3"
  using zoom_range_ordering[of "imageOnload 2000 1000 initial" 500 500]
  by (simp add: onLoadContainer_def imageOnload_def initial_def Let_def)

text \<open>
  With \<open>\<le> 1\<close> and ``at least as large'' the equivalence fails: the image of
  \<open>300 \<times> 200\<close> in the container of \<open>500 \<times> 500\<close> is smaller on both axes and gets the
  minimum \<open>1\<close>, which is \<open>\<le> 1\<close>.
\<close>

theorem zoom_range_ordering_counterexample:
  "\<not> (zoom_min (onLoadContainer (Some (500, 500)) (imageOnload 300 200 initial)) \<le> 1
        \<longleftrightarrow> (image_width (imageOnload 300 200 initial) \<ge> 500
             \<or> image_height (imageOnload 300 200 initial) \<ge> 500))"
  by (simp add: onLoadContainer_def imageOnload_def initial_def Let_def)

section \<open>No division by zero\<close>

text \<open>
  C10. If every recorded image size and container size is strictly positive (the
  sizes before the image has loaded being \<open>1 \<times> 1\<close>), then in every state reached from
  the freshly mounted component by any sequence of events the zoom level (state and
  ref), the minimum zoom and the image size are strictly positive, so that every
  divisor that any handler would evaluate in that state, and the divisor of the pin
  marker's inverse scale, is not zero. The handlers are total functions: none of
  them has a failing branch.
\<close>

theorem divisors_never_zero:
  assumes "list_all positive_sizes es" and "s = run initial es"
  shows "0 < zoomLevel s \<and> 0 < zoom_current s \<and> 0 < zoom_min s
       \<and> 0 < image_width s \<and> 0 < image_height s
       \<and> (\<forall>e. \<forall>d \<in> set (divisors e s). d \<noteq> 0)
       \<and> (\<forall>d \<in> set (render_divisors s). d \<noteq> 0)"
proof -
  have "pos_inv s" unfolding assms(2) by (rule pos_inv_run[OF pos_inv_initial assms(1)])
  then have p: "0 < image_width s" "0 < image_height s" "0 < zoom_min s"
      "zoom_min s \<le> zoomLevel s" "zoom_current s = zoomLevel s"
    by (simp_all add: pos_inv_def)
  then have z: "0 < zoomLevel s" "0 < zoom_current s" by simp_all
  have "\<forall>e. \<forall>d \<in> set (divisors e s). d \<noteq> 0"
    using divisors_nonzero[OF p(1) p(2) z(2)] by blast
  moreover have "\<forall>d \<in> set (render_divisors s). d \<noteq> 0"
    using z by (simp add: render_divisors_def)
  ultimately show ?thesis using p z by simp
qed

text \<open>
  An instance: the example session, whose events record the sizes \<open>2000 \<times> 1000\<close> and
  \<open>500 \<times> 500\<close>, has the zoom level \<open>1/4\<close>; a double click divides by \<open>1/4\<close> twice, a
  further container load by \<open>2000\<close>, \<open>1000\<close>, \<open>2\<close> and \<open>2\<close>, and the marker by \<open>1/4\<close>.
\<close>

theorem divisors_never_zero_witness:
  "list_all positive_sizes (ImageLoaded 2000 1000 # openViewer (500, 500) 7)
   \<and> zoomLevel example_open = 1 / 4
   \<and> divisors (DoubleClick (rect_at (100, 100)) (110, 120)) example_open = [1 / 4, 1 / 4]
   \<and> divisors (ContainerRef (Some (500, 500))) example_open = [2000, 1000, 2, 2]
   \<and> render_divisors example_open = [1 / 4]"
  using divisors_never_zero[of "ImageLoaded 2000 1000 # openViewer (500, 500) 7" example_open]
  by (simp add: example_open_eq openViewer_def render_divisors_def)

end
